theory Spec2Isabelle
  imports Main "HOL-Library.Word" "HOL-Library.AList" "HOL-Library.Char_ord"
    "HOL-Library.List_Lexorder"
begin

unbundle bit_operations_syntax

section \<open>Python strings\<close>

text \<open>
  A Python \<open>str\<close> is modelled as a \<open>string\<close>, one \<open>char\<close> per code point (code points
  below 256). \<open>isspace\<close> lists the code points in that range for which Python's
  \<open>str.isspace\<close> holds; \<open>strip\<close> and \<open>split\<close> are \<open>str.strip()\<close> and \<open>str.split()\<close>
  without arguments.
\<close>

definition isspace :: "char \<Rightarrow> bool" where
  "isspace c = (of_char c \<in> {9, 10, 11, 12, 13, 28, 29, 30, 31, 32, 133, 160 :: nat})"

definition lstrip :: "string \<Rightarrow> string" where
  "lstrip s = dropWhile isspace s"

definition rstrip :: "string \<Rightarrow> string" where
  "rstrip s = rev (dropWhile isspace (rev s))"

definition strip :: "string \<Rightarrow> string" where
  "strip s = rstrip (lstrip s)"

text \<open>
  \<open>split_acc cur s\<close> scans \<open>s\<close> with the token read so far in \<open>cur\<close> (reversed): a
  whitespace character ends a non-empty token, runs of whitespace produce nothing.
\<close>

fun split_acc :: "string \<Rightarrow> string \<Rightarrow> string list" where
  "split_acc cur [] = (if cur = [] then [] else [rev cur])"
| "split_acc cur (c # cs) =
     (if isspace c then (if cur = [] then split_acc [] cs else rev cur # split_acc [] cs)
      else split_acc (c # cur) cs)"

definition split :: "string \<Rightarrow> string list" where
  "split s = split_acc [] s"

definition startswith :: "string \<Rightarrow> string \<Rightarrow> bool" where
  "startswith s p = (take (length p) s = p)"

fun join :: "string \<Rightarrow> string list \<Rightarrow> string" where
  "join sep [] = []"
| "join sep [x] = x"
| "join sep (x # y # ys) = x @ sep @ join sep (y # ys)"

definition digit_char :: "nat \<Rightarrow> char" where
  "digit_char d = ''0123456789'' ! (d mod 10)"

fun str_nat :: "nat \<Rightarrow> string" where
  "str_nat n = (if n < 10 then [digit_char n] else str_nat (n div 10) @ [digit_char n])"

declare str_nat.simps [simp del]

definition str_int :: "int \<Rightarrow> string" where
  "str_int i = (if i < 0 then CHR ''-'' # str_nat (nat (- i)) else str_nat (nat i))"

definition str_bool :: "bool \<Rightarrow> string" where
  "str_bool b = (if b then ''True'' else ''False'')"

definition newline :: string where
  "newline = [CHR 0x0A]"

section \<open>Configuration and messages\<close>

text \<open>
  The fields of \<open>Config\<close> (config.py) that the bot, the file adapter and the service read.
  \<open>default_config\<close> holds the dataclass defaults.
\<close>

record config =
  prefix :: string
  bot_channel_id :: "int option"
  input_file :: "string option"
  script_directory :: string
  allowed_commands :: "string list"
  max_execution_time :: int
  working_directory :: string

definition default_config :: config where
  "default_config = \<lparr> prefix = ''!'', bot_channel_id = None, input_file = None,
     script_directory = ''./scripts'', allowed_commands = [], max_execution_time = 30,
     working_directory = ''.'' \<rparr>"

text \<open>
  A \<open>discord.Message\<close>: \<open>author_id\<close> decides \<open>message.author == self.bot.user\<close>
  (discord.py compares users by id), \<open>author_str\<close> is \<open>str(message.author)\<close>, \<open>guild_id\<close>
  is \<open>None\<close> for a message outside a guild.
\<close>

record message =
  msg_id :: int
  author_id :: int
  author_str :: string
  msg_channel_id :: int
  guild_id :: "int option"
  content :: string

section \<open>Service mode: script cache and command execution (service.py)\<close>

subsection \<open>The script directory and \<open>_load_scripts\<close>\<close>

text \<open>
  One result of \<open>script_dir.glob("*")\<close>: \<open>entry_name\<close> is \<open>script_file.name\<close>,
  \<open>entry_path\<close> is \<open>str(script_file)\<close>, \<open>is_file\<close> and \<open>st_mode\<close> are what
  \<open>is_file()\<close> and \<open>stat().st_mode\<close> return. The directory is \<open>None\<close> when it does not
  exist.
\<close>

record dir_entry =
  entry_name :: string
  entry_path :: string
  is_file :: bool
  st_mode :: nat

text \<open>\<open>script_file.is_file() and script_file.stat().st_mode & 0o111\<close>; octal 111 is 73.\<close>

definition executable :: "dir_entry \<Rightarrow> bool" where
  "executable e = (is_file e \<and> (st_mode e AND 73) \<noteq> 0)"

text \<open>
  \<open>script_cache\<close> is a Python dict: an association list in insertion order, where an
  assignment to an existing key keeps the key's position (\<open>AList.update\<close>).
\<close>

type_synonym cache = "(string \<times> string) list"

fun load_loop :: "dir_entry list \<Rightarrow> cache \<Rightarrow> cache" where
  "load_loop [] c = c"
| "load_loop (e # es) c =
     load_loop es (if executable e then AList.update (entry_name e) (entry_path e) c else c)"

subsection \<open>Child processes\<close>

text \<open>
  A request to \<open>asyncio.create_subprocess_exec\<close>. \<open>cwd = None\<close> and \<open>env = None\<close> are the
  call's defaults: the child inherits the working directory and the environment of the
  bot's process.
\<close>

record launch =
  program :: string
  argv :: "string list"
  cwd :: "string option"
  env :: "(string \<times> string) list option"

text \<open>
  What a launched child does relative to the deadline of \<open>asyncio.wait_for\<close>: it exits with
  a return code and its decoded standard output and error (decoding with
  \<open>errors='replace'\<close> never fails), or it is still running when the timeout expires.
\<close>

datatype child_behaviour = Exits int string string | Exceeds_timeout

text \<open>
  The state in which the executor leaves a child: \<open>Running\<close> when nothing ended it,
  \<open>Killed\<close> after \<open>process.kill()\<close>, \<open>Exited rc\<close> when it completed by itself.
\<close>

datatype proc_status = Running | Killed | Exited int

text \<open>
  The host the service runs on: \<open>environ\<close> is \<open>os.environ\<close>, \<open>host_cwd\<close> the working
  directory of the bot's process, \<open>spawn\<close> answers a launch with the text of the exception
  \<open>create_subprocess_exec\<close> raises (\<open>Inl\<close>) or with the behaviour of the child, and
  \<open>bot_connected\<close> is \<open>self.bot.is_connected()\<close>.
\<close>

record host =
  environ :: "(string \<times> string) list"
  host_cwd :: string
  spawn :: "launch \<Rightarrow> string + child_behaviour"
  bot_connected :: bool

text \<open>
  The state of a \<open>ServiceHandler\<close> and what it acts on: the script cache, the script
  directory on disk, the children it launched with the state it left them in, and the
  messages passed to \<open>self.bot.send_message\<close>.
\<close>

record service_state =
  script_cache :: cache
  script_dir :: "dir_entry list option"
  children :: "(launch \<times> proc_status) list"
  outbox :: "string list"
  running :: bool

definition load_scripts :: "service_state \<Rightarrow> service_state" where
  "load_scripts st =
     (case script_dir st of
        None \<Rightarrow> st\<lparr>script_dir := Some []\<rparr>
      | Some es \<Rightarrow> st\<lparr>script_cache := load_loop es (script_cache st)\<rparr>)"

subsection \<open>\<open>_execute_script\<close> and \<open>_execute_system_command\<close>\<close>

definition squote :: string where
  "squote = [CHR 0x27]"

text \<open>\<open>env = os.environ.copy(); env.update({...})\<close>, the keys assigned in the order written.\<close>

definition script_env ::
  "(string \<times> string) list \<Rightarrow> message \<Rightarrow> string list \<Rightarrow> (string \<times> string) list" where
  "script_env e m args =
     AList.update ''DISCORD_ARGS'' (join '' '' args)
      (AList.update ''DISCORD_MESSAGE_CONTENT'' (content m)
       (AList.update ''DISCORD_GUILD_ID'' (case guild_id m of None \<Rightarrow> [] | Some g \<Rightarrow> str_int g)
        (AList.update ''DISCORD_CHANNEL_ID'' (str_int (msg_channel_id m))
         (AList.update ''DISCORD_AUTHOR'' (author_str m)
          (AList.update ''DISCORD_MESSAGE_ID'' (str_int (msg_id m)) e)))))"

definition script_launch :: "config \<Rightarrow> host \<Rightarrow> string \<Rightarrow> string list \<Rightarrow> message \<Rightarrow> launch" where
  "script_launch cfg h script_path args m =
     \<lparr> program = script_path, argv = args, cwd = Some (working_directory cfg),
       env = Some (script_env (environ h) m args) \<rparr>"

text \<open>
  \<open>_execute_script\<close> from its \<open>try\<close> on; \<open>script_path\<close> is \<open>self.script_cache[script_name]\<close>,
  which the caller has looked up.
\<close>

definition execute_script ::
  "config \<Rightarrow> host \<Rightarrow> string \<Rightarrow> string \<Rightarrow> string list \<Rightarrow> message \<Rightarrow> service_state
     \<Rightarrow> string \<times> service_state" where
  "execute_script cfg h script_name script_path args m st =
     (let l = script_launch cfg h script_path args m in
      case spawn h l of
        Inl e \<Rightarrow> (''Error executing script: '' @ e, st)
      | Inr Exceeds_timeout \<Rightarrow>
          (''Script '' @ squote @ script_name @ squote @ '' timed out after ''
             @ str_int (max_execution_time cfg) @ '' seconds'',
           st\<lparr>children := children st @ [(l, Killed)]\<rparr>)
      | Inr (Exits returncode out err) \<Rightarrow>
          (let stdout_text = strip out; stderr_text = strip err in
           (if returncode = 0
            then (if stdout_text = [] then ''Script executed successfully'' else stdout_text)
            else ''Script failed (exit code '' @ str_int returncode @ ''):'' @ newline
                   @ (if stderr_text = [] then stdout_text else stderr_text),
            st\<lparr>children := children st @ [(l, Exited returncode)]\<rparr>)))"

definition system_launch :: "string \<Rightarrow> string list \<Rightarrow> launch" where
  "system_launch command args = \<lparr> program = command, argv = args, cwd = None, env = None \<rparr>"

definition execute_system_command ::
  "config \<Rightarrow> host \<Rightarrow> string \<Rightarrow> string list \<Rightarrow> service_state \<Rightarrow> string \<times> service_state" where
  "execute_system_command cfg h command args st =
     (let l = system_launch command args in
      case spawn h l of
        Inl e \<Rightarrow> (''Error executing command: '' @ e, st)
      | Inr Exceeds_timeout \<Rightarrow>
          (''Command '' @ squote @ command @ squote @ '' timed out after ''
             @ str_int (max_execution_time cfg) @ '' seconds'',
           st\<lparr>children := children st @ [(l, Running)]\<rparr>)
      | Inr (Exits returncode out err) \<Rightarrow>
          (let stdout_text = strip out; stderr_text = strip err in
           (if returncode = 0
            then (if stdout_text = [] then ''Command executed successfully'' else stdout_text)
            else ''Command failed (exit code '' @ str_int returncode @ ''):'' @ newline
                   @ (if stderr_text = [] then stdout_text else stderr_text),
            st\<lparr>children := children st @ [(l, Exited returncode)]\<rparr>)))"

text \<open>The environment and the directory a child really runs with.\<close>

definition effective_env :: "host \<Rightarrow> launch \<Rightarrow> (string \<times> string) list" where
  "effective_env h l = (case env l of None \<Rightarrow> environ h | Some e \<Rightarrow> e)"

definition effective_cwd :: "host \<Rightarrow> launch \<Rightarrow> string" where
  "effective_cwd h l = (case cwd l of None \<Rightarrow> host_cwd h | Some d \<Rightarrow> d)"

subsection \<open>Built-in commands\<close>

definition get_help :: "service_state \<Rightarrow> string" where
  "get_help st =
     join newline
       ([''Available commands:'',
         ''  help - Show this help message'',
         ''  list - List available scripts'',
         ''  status - Show bot status'',
         ''  reload - Reload scripts'',
         [],
         ''System commands:'',
         ''  ls, ps, df, free, uptime, whoami, pwd'',
         [],
         ''Scripts:'']
        @ (if script_cache st \<noteq> []
           then map (\<lambda>script_name. ''  '' @ script_name) (sort (map fst (script_cache st)))
           else [''  No scripts available'']))"

definition list_scripts :: "service_state \<Rightarrow> string" where
  "list_scripts st =
     (if script_cache st = [] then ''No scripts available''
      else ''Available scripts:'' @ newline
             @ join newline (map (\<lambda>(script_name, script_path).
                 ''  '' @ script_name @ '' ('' @ script_path @ '')'') (script_cache st)))"

definition get_status :: "config \<Rightarrow> host \<Rightarrow> service_state \<Rightarrow> string" where
  "get_status cfg h st =
     join newline
       [''Bot connected: '' @ str_bool (bot_connected h),
        ''Service running: '' @ str_bool (running st),
        ''Scripts loaded: '' @ str_nat (length (script_cache st)),
        ''Working directory: '' @ working_directory cfg,
        ''Max execution time: '' @ str_int (max_execution_time cfg) @ ''s'']"

subsection \<open>\<open>_execute_command\<close>\<close>

definition system_commands :: "string list" where
  "system_commands = [''ls'', ''ps'', ''df'', ''free'', ''uptime'', ''whoami'', ''pwd'']"

text \<open>
  The checks in the source's order: allow-list, script cache, system commands, built-ins.
  \<open>command in self.script_cache\<close> and the lookup \<open>self.script_cache[script_name]\<close> that
  follows it are one \<open>map_of\<close>.
\<close>

definition execute_command ::
  "config \<Rightarrow> host \<Rightarrow> string \<Rightarrow> string list \<Rightarrow> message \<Rightarrow> service_state
     \<Rightarrow> string \<times> service_state" where
  "execute_command cfg h command args m st =
     (if allowed_commands cfg \<noteq> [] \<and> command \<notin> set (allowed_commands cfg)
      then (''Command '' @ squote @ command @ squote @ '' not allowed'', st)
      else case map_of (script_cache st) command of
        Some script_path \<Rightarrow> execute_script cfg h command script_path args m st
      | None \<Rightarrow>
          if command \<in> set system_commands then execute_system_command cfg h command args st
          else if command = ''help'' then (get_help st, st)
          else if command = ''list'' then (list_scripts st, st)
          else if command = ''status'' then (get_status cfg h st, st)
          else if command = ''reload'' then (''Scripts reloaded'', load_scripts st)
          else (''Unknown command: '' @ command @ ''. Use '' @ squote @ ''help'' @ squote
                  @ '' for available commands.'', st))"

subsection \<open>\<open>_handle_service_message\<close>\<close>

text \<open>
  The first half of \<open>_handle_service_message\<close>: the command and the arguments it hands to
  \<open>_execute_command\<close>, or \<open>None\<close> where it returns without calling it. \<open>content[1:]\<close> is
  \<open>drop 1\<close>.
\<close>

definition parse_service_message :: "config \<Rightarrow> message \<Rightarrow> (string \<times> string list) option" where
  "parse_service_message cfg m =
     (let content' = strip (content m) in
      if \<not> startswith content' (prefix cfg) then None
      else (let command_line = strip (drop 1 content'); parts = split command_line in
            case parts of [] \<Rightarrow> None | command # args \<Rightarrow> Some (command, args)))"

definition handle_service_message ::
  "config \<Rightarrow> host \<Rightarrow> message \<Rightarrow> service_state \<Rightarrow> service_state" where
  "handle_service_message cfg h m st =
     (case parse_service_message cfg m of
        None \<Rightarrow> st
      | Some (command, args) \<Rightarrow>
          (let (response, st') = execute_command cfg h command args m st in
           if response \<noteq> [] then st'\<lparr>outbox := outbox st' @ [response]\<rparr> else st'))"

section \<open>Dispatch of inbound messages (bot.py)\<close>

text \<open>
  What one call of a registered handler does: it returns, it raises an exception that
  \<open>except Exception\<close> catches (with the exception's text), or it raises one outside the
  \<open>Exception\<close> hierarchy (\<open>SystemExit\<close>, \<open>KeyboardInterrupt\<close>, \<open>asyncio.CancelledError\<close>),
  which \<open>except Exception\<close> lets through. A handler may change the world \<open>'w\<close> it acts on.
\<close>

datatype outcome = Returns | Raises_Exception string | Raises_BaseException string

type_synonym 'w handler = "message \<Rightarrow> 'w \<Rightarrow> outcome \<times> 'w"

text \<open>
  \<open>invoked\<close> lists the positions (in \<open>self.message_handlers\<close>) of the handlers called so
  far, in the order of the calls; \<open>errlog\<close> holds the lines given to \<open>logging.error\<close>.
\<close>

record 'w dispatch_state =
  world :: 'w
  invoked :: "nat list"
  errlog :: "string list"

text \<open>
  The \<open>for handler in self.message_handlers\<close> loop, from position \<open>i\<close> on. The result is
  \<open>None\<close> when the loop ran to its end and \<open>Some e\<close> when the fault \<open>e\<close> left it and reaches
  the caller of \<open>on_message\<close>.
\<close>

fun call_handlers ::
  "'w handler list \<Rightarrow> nat \<Rightarrow> message \<Rightarrow> 'w dispatch_state \<Rightarrow> string option \<times> 'w dispatch_state" where
  "call_handlers [] i m st = (None, st)"
| "call_handlers (handler # hs) i m st =
     (case handler m (world st) of
        (Returns, w) \<Rightarrow>
          call_handlers hs (Suc i) m (st\<lparr>world := w, invoked := invoked st @ [i]\<rparr>)
      | (Raises_Exception e, w) \<Rightarrow>
          call_handlers hs (Suc i) m
            (st\<lparr>world := w, invoked := invoked st @ [i],
                errlog := errlog st @ [''Error in message handler: '' @ e]\<rparr>)
      | (Raises_BaseException e, w) \<Rightarrow>
          (Some e, st\<lparr>world := w, invoked := invoked st @ [i]\<rparr>))"

text \<open>
  \<open>self.config.bot.channel_id\<close> used as a condition: \<open>None\<close> and \<open>0\<close> are false. The same
  test decides "No channel ID configured" in \<open>send_message\<close>.
\<close>

definition channel_configured :: "config \<Rightarrow> bool" where
  "channel_configured cfg = (case bot_channel_id cfg of None \<Rightarrow> False | Some c \<Rightarrow> c \<noteq> 0)"

text \<open>
  \<open>on_message\<close>; \<open>bot_user\<close> is the id of \<open>self.bot.user\<close>, \<open>None\<close> before login. The call
  of discord.py's \<open>process_commands\<close> that follows the loop is outside the fan-out and is
  not modelled.
\<close>

definition on_message ::
  "config \<Rightarrow> int option \<Rightarrow> 'w handler list \<Rightarrow> message \<Rightarrow> 'w dispatch_state
     \<Rightarrow> string option \<times> 'w dispatch_state" where
  "on_message cfg bot_user message_handlers m st =
     (if Some (author_id m) = bot_user then (None, st)
      else if channel_configured cfg \<and> Some (msg_channel_id m) \<noteq> bot_channel_id cfg
      then (None, st)
      else call_handlers message_handlers 0 m st)"

section \<open>The file adapter (io_handlers.py, \<open>FileHandler\<close>)\<close>

text \<open>
  A file object: the mode it was opened in and whether it is closed. \<open>file_truncate\<close> gives the
  new content of the file, or the text of the exception Python raises: \<open>ValueError\<close> on a
  closed file, \<open>io.UnsupportedOperation('truncate')\<close> on a text file opened for reading only.
\<close>

datatype open_mode = Mode_r | Mode_w | Mode_a

record file_object =
  mode :: open_mode
  closed :: bool

definition file_truncate :: "file_object \<Rightarrow> nat \<Rightarrow> string \<Rightarrow> string + string" where
  "file_truncate f size' data =
     (if closed f then Inl ''I/O operation on closed file.''
      else if mode f = Mode_r then Inl ''truncate''
      else Inr (take size' data))"

text \<open>
  \<open>mailbox\<close> is the decoded content of the configured input file (\<open>None\<close>: the file does
  not exist), \<open>sends\<close> the arguments of the calls of \<open>self.bot.send_message\<close>, \<open>file_log\<close>
  the lines given to \<open>logging.error\<close>.
\<close>

record file_state =
  mailbox :: "string option"
  sends :: "string list"
  file_log :: "string list"

text \<open>
  \<open>_process_input_file\<close> with an input file configured; \<open>send_ok\<close> is the result of
  \<open>self.bot.send_message\<close>. The file is opened with mode \<open>'r'\<close> and the \<open>async with\<close> block
  ends after the read, which closes \<open>f\<close>; \<open>f.truncate(0)\<close> runs on that closed object,
  inside the \<open>try\<close> whose handler logs the exception.
\<close>

definition process_input_file :: "(string \<Rightarrow> bool) \<Rightarrow> file_state \<Rightarrow> file_state" where
  "process_input_file send_ok st =
     (case mailbox st of
        None \<Rightarrow> st
      | Some data \<Rightarrow>
          (let f = \<lparr> mode = Mode_r, closed = False \<rparr>;
               f = f\<lparr>closed := True\<rparr> in
           if strip data = [] then st
           else
             (let success = send_ok (strip data);
                  st = st\<lparr>sends := sends st @ [strip data]\<rparr> in
              if success then
                (case file_truncate f 0 data of
                   Inl e \<Rightarrow> st\<lparr>file_log := file_log st @ [''Error processing input file: '' @ e]\<rparr>
                 | Inr data' \<Rightarrow> st\<lparr>mailbox := Some data'\<rparr>)
              else st\<lparr>file_log := file_log st @ [''Failed to send file content to Discord'']\<rparr>)))"

section \<open>The socket protocol (io_handlers.py, \<open>SocketHandler\<close>)\<close>

subsection \<open>Bytes, lengths and UTF-8\<close>

type_synonym byte = "8 word"

text \<open>Text decoded from the wire is a list of Unicode code points.\<close>

type_synonym utext = "nat list"

definition lit :: "string \<Rightarrow> utext" where
  "lit s = map of_char s"

text \<open>\<open>int.from_bytes(b, 'big')\<close>, for any number of bytes.\<close>

definition from_bytes :: "byte list \<Rightarrow> nat" where
  "from_bytes bs = foldl (\<lambda>acc b. acc * 256 + unat b) 0 bs"

text \<open>\<open>n.to_bytes(4, 'big')\<close>; \<open>None\<close> is the \<open>OverflowError\<close> for \<open>n \<ge> 2 ^ 32\<close>.\<close>

definition to_bytes4 :: "nat \<Rightarrow> byte list option" where
  "to_bytes4 n =
     (if n < 2 ^ 32
      then Some [of_nat (n div 2 ^ 24), of_nat (n div 2 ^ 16), of_nat (n div 2 ^ 8), of_nat n]
      else None)"

text \<open>\<open>len(data).to_bytes(4, 'big') + data\<close>, as both the server and the client write it.\<close>

definition frame :: "byte list \<Rightarrow> byte list option" where
  "frame data = (case to_bytes4 (length data) of None \<Rightarrow> None | Some len \<Rightarrow> Some (len @ data))"

definition cont :: "byte \<Rightarrow> bool" where
  "cont b = (128 \<le> unat b \<and> unat b < 192)"

text \<open>
  \<open>bytes.decode('utf-8')\<close> with strict errors: \<open>None\<close> is \<open>UnicodeDecodeError\<close>. Overlong
  forms, surrogates and code points above U+10FFFF are rejected, as Python does.
\<close>

fun utf8_decode :: "byte list \<Rightarrow> utext option" where
  "utf8_decode [] = Some []"
| "utf8_decode (b # bs) =
     (let c = unat b in
      if c < 128 then map_option ((#) c) (utf8_decode bs)
      else if 194 \<le> c \<and> c < 224 then
        (case bs of
           b1 # r \<Rightarrow>
             if cont b1
             then map_option ((#) ((c - 192) * 64 + (unat b1 - 128))) (utf8_decode r)
             else None
         | _ \<Rightarrow> None)
      else if 224 \<le> c \<and> c < 240 then
        (case bs of
           b1 # b2 # r \<Rightarrow>
             if cont b1 \<and> cont b2
                \<and> (if c = 224 then 160 \<le> unat b1 else True)
                \<and> (if c = 237 then unat b1 < 160 else True)
             then map_option
                    ((#) ((c - 224) * 4096 + (unat b1 - 128) * 64 + (unat b2 - 128)))
                    (utf8_decode r)
             else None
         | _ \<Rightarrow> None)
      else if 240 \<le> c \<and> c < 245 then
        (case bs of
           b1 # b2 # b3 # r \<Rightarrow>
             if cont b1 \<and> cont b2 \<and> cont b3
                \<and> (if c = 240 then 144 \<le> unat b1 else True)
                \<and> (if c = 244 then unat b1 < 144 else True)
             then map_option
                    ((#) ((c - 240) * 262144 + (unat b1 - 128) * 4096
                            + (unat b2 - 128) * 64 + (unat b3 - 128)))
                    (utf8_decode r)
             else None
         | _ \<Rightarrow> None)
      else None)"

text \<open>\<open>str.encode('utf-8')\<close>: \<open>None\<close> is the \<open>UnicodeEncodeError\<close> for a surrogate.\<close>

fun utf8_encode :: "utext \<Rightarrow> byte list option" where
  "utf8_encode [] = Some []"
| "utf8_encode (c # cs) =
     (if c < 128 then map_option ((#) (of_nat c)) (utf8_encode cs)
      else if c < 2048 then
        map_option ((@) [of_nat (192 + c div 64), of_nat (128 + c mod 64)]) (utf8_encode cs)
      else if c < 65536 then
        (if 55296 \<le> c \<and> c < 57344 then None
         else map_option
                ((@) [of_nat (224 + c div 4096), of_nat (128 + c div 64 mod 64),
                      of_nat (128 + c mod 64)])
                (utf8_encode cs))
      else if c < 1114112 then
        map_option
          ((@) [of_nat (240 + c div 262144), of_nat (128 + c div 4096 mod 64),
                of_nat (128 + c div 64 mod 64), of_nat (128 + c mod 64)])
          (utf8_encode cs)
      else None)"

subsection \<open>JSON values and the bot as the socket handler sees it\<close>

text \<open>
  The values \<open>json.loads\<close> returns and \<open>json.dumps\<close> takes; a dict is an association list
  in key order, a float carries its text.
\<close>

datatype json =
  JNull | JBool bool | JInt int | JFloat utext | JStr utext
  | JArr "json list" | JObj "(utext \<times> json) list"

text \<open>
  What \<open>json.loads\<close> does: it returns a value, it raises \<open>JSONDecodeError\<close>, or it raises
  another exception (\<open>RecursionError\<close>, the \<open>ValueError\<close> for an integer with too many
  digits), given with its text.
\<close>

datatype load_result = Loaded json | JSONDecodeError | Raised utext

text \<open>
  The \<open>json\<close> module is not part of the repository: \<open>loads\<close> is \<open>json.loads\<close>, \<open>dumps\<close> is
  \<open>json.dumps\<close>, and \<open>repr\<close> is Python's \<open>repr\<close> on lists and dicts.
\<close>

record json_lib =
  loads :: "utext \<Rightarrow> load_result"
  dumps :: "json \<Rightarrow> utext"
  repr :: "json \<Rightarrow> utext"

text \<open>\<open>str(v)\<close> as an f-string formats a loaded value.\<close>

definition py_str :: "json_lib \<Rightarrow> json \<Rightarrow> utext" where
  "py_str lib v =
     (case v of
        JNull \<Rightarrow> lit ''None''
      | JBool b \<Rightarrow> lit (str_bool b)
      | JInt i \<Rightarrow> lit (str_int i)
      | JFloat t \<Rightarrow> t
      | JStr s \<Rightarrow> s
      | JArr xs \<Rightarrow> repr lib v
      | JObj kvs \<Rightarrow> repr lib v)"

definition type_name :: "json \<Rightarrow> string" where
  "type_name v =
     (case v of
        JNull \<Rightarrow> ''NoneType'' | JBool b \<Rightarrow> ''bool'' | JInt i \<Rightarrow> ''int'' | JFloat t \<Rightarrow> ''float''
      | JStr s \<Rightarrow> ''str'' | JArr xs \<Rightarrow> ''list'' | JObj kvs \<Rightarrow> ''dict'')"

record channel_message =
  cm_id :: int
  cm_content :: utext
  cm_author :: utext
  cm_timestamp :: utext

text \<open>
  The bot as \<open>SocketHandler\<close> uses it: the result of \<open>send_message(content)\<close>,
  \<open>is_connected()\<close>, \<open>is_running\<close> and the result of \<open>get_channel_messages(limit)\<close>.
\<close>

record bot =
  send_message :: "json \<Rightarrow> bool"
  is_connected :: bool
  is_running :: bool
  get_channel_messages :: "json \<Rightarrow> channel_message list"

subsection \<open>\<open>_process_socket_message\<close>\<close>

definition error_reply :: "utext \<Rightarrow> json" where
  "error_reply t = JObj [(lit ''error'', JStr t)]"

definition get :: "(utext \<times> json) list \<Rightarrow> string \<Rightarrow> json \<Rightarrow> json" where
  "get d k dflt = (case map_of d (lit k) of None \<Rightarrow> dflt | Some v \<Rightarrow> v)"

text \<open>
  The reply value (before \<open>json.dumps\<close>) and the contents passed to
  \<open>self.bot.send_message\<close>. A loaded value that is not a dict has no \<open>get\<close>: the
  \<open>AttributeError\<close> is caught by \<open>except Exception\<close> and its text becomes the error, as
  does the text of any other exception \<open>json.loads\<close> raises.
\<close>

definition process_socket_message :: "json_lib \<Rightarrow> bot \<Rightarrow> utext \<Rightarrow> json \<times> json list" where
  "process_socket_message lib b message =
     (case loads lib message of
        JSONDecodeError \<Rightarrow> (error_reply (lit ''Invalid JSON message''), [])
      | Raised e \<Rightarrow> (error_reply e, [])
      | Loaded (JObj data) \<Rightarrow>
          (let command = get data ''command'' JNull in
           if command = JStr (lit ''send'') then
             (let content' = get data ''content'' (JStr []);
                  success = send_message b content' in
              (JObj [(lit ''success'', JBool success), (lit ''message'', content')], [content']))
           else if command = JStr (lit ''status'') then
             (JObj [(lit ''connected'', JBool (is_connected b)),
                    (lit ''running'', JBool (is_running b))], [])
           else if command = JStr (lit ''get_messages'') then
             (let limit = get data ''limit'' (JInt 10);
                  messages = get_channel_messages b limit in
              (JObj [(lit ''messages'',
                      JArr (map (\<lambda>msg. JObj [(lit ''id'', JInt (cm_id msg)),
                                               (lit ''content'', JStr (cm_content msg)),
                                               (lit ''author'', JStr (cm_author msg)),
                                               (lit ''timestamp'', JStr (cm_timestamp msg))])
                             messages))], []))
           else (error_reply (lit ''Unknown command: '' @ py_str lib command), []))
      | Loaded v \<Rightarrow>
          (error_reply (lit (squote @ type_name v @ squote
                              @ '' object has no attribute '' @ squote @ ''get'' @ squote)), []))"

subsection \<open>The stream reader\<close>

text \<open>
  An \<open>asyncio.StreamReader\<close> is the list of the pieces in which the bytes of the stream
  become available to the calls of \<open>read\<close>, followed by the end of the stream.
  \<open>reader.read(n)\<close> returns at most \<open>n\<close> bytes of what is buffered, that is of the first
  piece, and leaves the rest of it for the next call; it does not wait for \<open>n\<close> bytes.
  At the end of the stream it returns no byte. A stream that has wholly arrived before
  the first \<open>read\<close> is one piece. Empty pieces carry nothing and are dropped by \<open>prune\<close>.
\<close>

type_synonym reader = "byte list list"

definition prune :: "reader \<Rightarrow> reader" where
  "prune r = filter (\<lambda>piece. piece \<noteq> []) r"

definition read :: "nat \<Rightarrow> reader \<Rightarrow> byte list \<times> reader" where
  "read n r =
     (case prune r of
        [] \<Rightarrow> ([], [])
      | piece # pieces \<Rightarrow> (take n piece, prune (drop n piece # pieces)))"

subsection \<open>\<open>_handle_client\<close>\<close>

text \<open>
  One pass through the body of the \<open>while\<close> loop: \<open>Break\<close> is one of the two \<open>break\<close>s,
  \<open>Fault\<close> an exception that reaches \<open>except Exception\<close> of \<open>_handle_client\<close>; both leave
  the loop, and \<open>finally\<close> closes the connection. \<open>Reply\<close> carries the bytes written to
  the client, the contents sent to the chat and the reader as the pass leaves it: the
  loop goes on.
\<close>

datatype step = Break | Fault string | Reply "byte list" "json list" reader

definition client_step :: "json_lib \<Rightarrow> bot \<Rightarrow> reader \<Rightarrow> step" where
  "client_step lib b reader =
     (let (length_data, reader) = read 4 reader in
      if length_data = [] then Break
      else
        (let message_length = from_bytes length_data;
             (message_data, reader) = read message_length reader in
         if length message_data \<noteq> message_length then Break
         else
           (case utf8_decode message_data of
              None \<Rightarrow> Fault ''UnicodeDecodeError''
            | Some message \<Rightarrow>
                (let (response, sent) = process_socket_message lib b message in
                 case utf8_encode (dumps lib response) of
                   None \<Rightarrow> Fault ''UnicodeEncodeError''
                 | Some response_data \<Rightarrow>
                     (case frame response_data of
                        None \<Rightarrow> Fault ''OverflowError''
                      | Some out \<Rightarrow> Reply out sent reader)))))"

text \<open>
  What a connection produced when \<open>_handle_client\<close> has closed it: the bytes written, the
  contents sent to the chat, and the fault that ended the loop, if one did.
\<close>

record connection =
  written :: "byte list"
  chat_sends :: "json list"
  fault :: "string option"

text \<open>\<open>_handle_client\<close>; \<open>running\<close> is \<open>self.running\<close>, set by \<open>start()\<close>.\<close>

function handle_client :: "json_lib \<Rightarrow> bot \<Rightarrow> bool \<Rightarrow> reader \<Rightarrow> connection" where
  "handle_client lib b running' reader =
     (if \<not> running' then \<lparr> written = [], chat_sends = [], fault = None \<rparr>
      else
        (case client_step lib b reader of
           Break \<Rightarrow> \<lparr> written = [], chat_sends = [], fault = None \<rparr>
         | Fault e \<Rightarrow> \<lparr> written = [], chat_sends = [], fault = Some e \<rparr>
         | Reply out sent rest \<Rightarrow>
             (let c = handle_client lib b running' rest in
              c\<lparr>written := out @ written c, chat_sends := sent @ chat_sends c\<rparr>)))"
  by pat_completeness auto
termination
proof (relation "measure (\<lambda>(lib, b, r, reader). length (concat reader))")
  show "wf (measure (\<lambda>(lib, b, r, reader). length (concat reader)))" by simp
next
  fix lib :: json_lib and b :: bot and running' :: bool and reader :: reader
    and out :: "byte list" and sent :: "json list" and rest :: reader
  assume step: "client_step lib b reader = Reply out sent rest"
  have pr: "length (concat (prune r)) = length (concat r)" for r :: reader
    by (induction r) (simp_all add: prune_def)
  have rd: "length (fst (read n r)) + length (concat (snd (read n r))) = length (concat r)"
    for n and r :: reader
  proof (cases "prune r")
    case Nil
    with pr [of r] show ?thesis by (simp add: read_def)
  next
    case (Cons piece pieces)
    have "length (take n piece) + length (concat (prune (drop n piece # pieces)))
        = length (concat (piece # pieces))"
      using pr [of "drop n piece # pieces"] by simp
    with Cons pr [of r] show ?thesis by (simp add: read_def)
  qed
  obtain length_data r1 where r1: "read 4 reader = (length_data, r1)"
    by (cases "read 4 reader")
  obtain message_data r2 where r2: "read (from_bytes length_data) r1 = (message_data, r2)"
    by (cases "read (from_bytes length_data) r1")
  from step r1 r2 have ne: "length_data \<noteq> []" and rest: "rest = r2"
    by (auto simp: client_step_def Let_def split: if_splits option.splits prod.splits)
  from rd [of 4 reader] r1 have "length length_data + length (concat r1) = length (concat reader)"
    by simp
  moreover from rd [of "from_bytes length_data" r1] r2
  have "length (concat r2) \<le> length (concat r1)" by simp
  ultimately have "length (concat rest) < length (concat reader)"
    using ne rest by (cases length_data) simp_all
  then show "((lib, b, running', rest), (lib, b, running', reader))
      \<in> measure (\<lambda>(lib, b, r, reader). length (concat reader))" by simp
qed

declare handle_client.simps [simp del]

subsection \<open>\<open>send_socket_message\<close>\<close>

text \<open>
  The client: \<open>peer\<close> is \<open>None\<close> when \<open>open_unix_connection\<close> raises, and otherwise the
  reader of the connection, holding what the other side sends before it closes. The
  result is the bytes written and the value returned.
\<close>

definition send_socket_message :: "reader option \<Rightarrow> utext \<Rightarrow> byte list \<times> utext option" where
  "send_socket_message peer message =
     (case peer of
        None \<Rightarrow> ([], None)
      | Some reader \<Rightarrow>
          (case utf8_encode message of
             None \<Rightarrow> ([], None)
           | Some message_data \<Rightarrow>
               (case frame message_data of
                  None \<Rightarrow> ([], None)
                | Some out \<Rightarrow>
                    (let (length_data, reader) = read 4 reader in
                     if length_data = [] then (out, None)
                     else
                       (let response_length = from_bytes length_data;
                            (response_data, reader) = read response_length reader in
                        case utf8_decode response_data of
                          None \<Rightarrow> (out, None)
                        | Some response \<Rightarrow> (out, Some response))))))"

section \<open>Example inputs\<close>

text \<open>Concrete values at which the theorems below are evaluated.\<close>

definition example_message :: message where
  "example_message = \<lparr> msg_id = 1001, author_id = 42, author_str = ''alice'',
     msg_channel_id = 7, guild_id = Some 9, content = ''!greet world'' \<rparr>"

definition example_config :: config where
  "example_config = default_config\<lparr>working_directory := ''/srv/bot''\<rparr>"

text \<open>A host on which every child exits at once with status 0 and prints \<open>ok\<close>.\<close>

definition example_host :: host where
  "example_host = \<lparr> environ = [(''PATH'', ''/usr/bin'')], host_cwd = ''/home/bot'',
     spawn = (\<lambda>l. Inr (Exits 0 ''ok'' [])), bot_connected = True \<rparr>"

text \<open>A host on which every child is still running when the timeout expires.\<close>

definition hanging_host :: host where
  "hanging_host = \<lparr> environ = [(''PATH'', ''/usr/bin'')], host_cwd = ''/home/bot'',
     spawn = (\<lambda>l. Inr Exceeds_timeout), bot_connected = True \<rparr>"

definition empty_service :: service_state where
  "empty_service = \<lparr> script_cache = [], script_dir = Some [], children = [], outbox = [],
     running = True \<rparr>"

text \<open>A service that has loaded \<open>greet\<close>, the one executable file of its directory.\<close>

definition greet_service :: service_state where
  "greet_service = \<lparr> script_cache = [(''greet'', ''scripts/greet'')],
     script_dir = Some [\<lparr> entry_name = ''greet'', entry_path = ''scripts/greet'',
                          is_file = True, st_mode = 493 \<rparr>],
     children = [], outbox = [], running = True \<rparr>"

text \<open>
  A service whose cache holds \<open>old\<close>, loaded earlier, while the directory now holds only
  the executable file \<open>new\<close> (mode 0o755 = 493).
\<close>

definition stale_service :: service_state where
  "stale_service = \<lparr> script_cache = [(''old'', ''scripts/old'')],
     script_dir = Some [\<lparr> entry_name = ''new'', entry_path = ''scripts/new'',
                          is_file = True, st_mode = 493 \<rparr>],
     children = [], outbox = [], running = True \<rparr>"

definition ok_handler :: "unit handler" where
  "ok_handler m w = (Returns, w)"

definition failing_handler :: "unit handler" where
  "failing_handler m w = (Raises_Exception ''boom'', w)"

definition exit_handler :: "unit handler" where
  "exit_handler m w = (Raises_BaseException ''SystemExit'', w)"

definition idle :: "unit dispatch_state" where
  "idle = \<lparr> world = (), invoked = [], errlog = [] \<rparr>"

definition always_ok :: "string \<Rightarrow> bool" where
  "always_ok s = True"

definition hello_mailbox :: file_state where
  "hello_mailbox = \<lparr> mailbox = Some ''hello'', sends = [], file_log = [] \<rparr>"

section \<open>What the dispatcher is expected to record\<close>

text \<open>
  The outcomes of the handlers when each is called once, in order, on the world the one
  before it left; the log line \<open>on_message\<close> writes for an outcome; and the outcomes
  that \<open>except Exception\<close> handles.
\<close>

fun outcomes :: "'w handler list \<Rightarrow> message \<Rightarrow> 'w \<Rightarrow> outcome list" where
  "outcomes [] m w = []"
| "outcomes (handler # hs) m w = (case handler m w of (r, w') \<Rightarrow> r # outcomes hs m w')"

fun log_lines :: "outcome \<Rightarrow> string list" where
  "log_lines Returns = []"
| "log_lines (Raises_Exception e) = [''Error in message handler: '' @ e]"
| "log_lines (Raises_BaseException e) = []"

fun catchable :: "outcome \<Rightarrow> bool" where
  "catchable (Raises_BaseException e) = False"
| "catchable r = True"

section \<open>The file adapter: the mailbox is not cleared\<close>

lemma process_input_file_keeps_mailbox: "mailbox (process_input_file send_ok st) = mailbox st"
  by (simp add: process_input_file_def file_truncate_def Let_def split: option.splits)

text \<open>
  C1. The claim: content that is sent successfully is sent exactly once, and the input
  file is empty afterwards. What \<open>_process_input_file\<close> does on the mailbox content
  \<open>hello\<close> with a send that succeeds: it sends \<open>hello\<close>, then \<open>f.truncate(0)\<close> raises on the
  closed file object, the exception is logged and the file still holds \<open>hello\<close>; the
  next detection sends \<open>hello\<close> again.
\<close>

theorem mailbox_not_truncated:
  "process_input_file always_ok hello_mailbox
     = \<lparr> mailbox = Some ''hello'', sends = [''hello''],
         file_log = [''Error processing input file: I/O operation on closed file.''] \<rparr>
   \<and> sends (process_input_file always_ok (process_input_file always_ok hello_mailbox))
     = [''hello'', ''hello'']"
  by (simp add: process_input_file_def hello_mailbox_def always_ok_def file_truncate_def
      strip_def lstrip_def rstrip_def isspace_def)

section \<open>Timeouts\<close>

lemma script_timeout_kills:
  assumes "spawn h (script_launch cfg h script_path args m) = Inr Exceeds_timeout"
  shows "execute_script cfg h script_name script_path args m st
     = (''Script '' @ squote @ script_name @ squote @ '' timed out after ''
             @ str_int (max_execution_time cfg) @ '' seconds'',
        st\<lparr>children := children st @ [(script_launch cfg h script_path args m, Killed)]\<rparr>)"
  using assms by (simp add: execute_script_def)

text \<open>
  C2. The claim: a child that exceeds the timeout is killed, for scripts and for system
  commands, and a timed-out text is returned. \<open>_execute_script\<close> does so
  (\<open>script_timeout_kills\<close>). \<open>_execute_system_command\<close> returns the text and never calls
  \<open>kill\<close>: for \<open>ls -R /\<close> on a host where the child outlives the 30 seconds, the child is
  left \<open>Running\<close>.
\<close>

theorem system_command_timeout_leaves_child:
  "execute_system_command default_config hanging_host ''ls'' [''-R'', ''/''] empty_service
     = (''Command '' @ squote @ ''ls'' @ squote @ '' timed out after 30 seconds'',
        empty_service\<lparr>children := [(system_launch ''ls'' [''-R'', ''/''], Running)]\<rparr>)"
  by (simp add: execute_system_command_def hanging_host_def default_config_def empty_service_def
      str_int_def str_nat.simps digit_char_def)

section \<open>Dispatch\<close>

lemma call_handlers_all:
  "list_all catchable (outcomes hs m (world st)) \<Longrightarrow>
   fst (call_handlers hs i m st) = None
   \<and> invoked (snd (call_handlers hs i m st)) = invoked st @ [i ..< i + length hs]
   \<and> errlog (snd (call_handlers hs i m st))
       = errlog st @ concat (map log_lines (outcomes hs m (world st)))"
proof (induction hs arbitrary: i st)
  case Nil
  then show ?case by simp
next
  case (Cons handler hs)
  obtain r w where hw: "handler m (world st) = (r, w)" by (cases "handler m (world st)")
  from Cons.prems hw have c: "catchable r" and rest: "list_all catchable (outcomes hs m w)"
    by simp_all
  have upt: "[i ..< Suc (i + length hs)] = i # [Suc i ..< Suc (i + length hs)]"
    by (rule upt_conv_Cons) simp
  show ?case
  proof (cases r)
    case Returns
    let ?st = "st\<lparr>world := w, invoked := invoked st @ [i]\<rparr>"
    from rest have "list_all catchable (outcomes hs m (world ?st))" by simp
    from Cons.IH [OF this, of "Suc i"] show ?thesis
      using hw Returns by (simp add: upt del: upt_Suc)
  next
    case (Raises_Exception e)
    let ?st = "st\<lparr>world := w, invoked := invoked st @ [i],
                errlog := errlog st @ [''Error in message handler: '' @ e]\<rparr>"
    from rest have "list_all catchable (outcomes hs m (world ?st))" by simp
    from Cons.IH [OF this, of "Suc i"] show ?thesis
      using hw Raises_Exception by (simp add: upt del: upt_Suc)
  next
    case (Raises_BaseException e)
    with c show ?thesis by simp
  qed
qed

text \<open>
  C3, as the code has it. For a message that is not the bot's own and, when a channel is
  configured, arrives on that channel, and handlers none of which raises outside the
  \<open>Exception\<close> hierarchy: \<open>on_message\<close> calls every handler exactly once, in registration
  order, logs one line for each handler that raises, and no fault reaches its caller.
\<close>

theorem dispatch_invokes_all:
  assumes "Some (author_id m) \<noteq> bot_user"
      and "\<not> channel_configured cfg \<or> bot_channel_id cfg = Some (msg_channel_id m)"
      and "list_all catchable (outcomes message_handlers m (world st))"
  shows "fst (on_message cfg bot_user message_handlers m st) = None
       \<and> invoked (snd (on_message cfg bot_user message_handlers m st))
           = invoked st @ [0 ..< length message_handlers]
       \<and> errlog (snd (on_message cfg bot_user message_handlers m st))
           = errlog st @ concat (map log_lines (outcomes message_handlers m (world st)))"
proof -
  from assms(1,2) have "on_message cfg bot_user message_handlers m st
      = call_handlers message_handlers 0 m st"
    by (auto simp: on_message_def)
  with call_handlers_all [OF assms(3), of 0] show ?thesis by simp
qed

theorem dispatch_invokes_all_witness:
  "Some (author_id example_message) \<noteq> Some 99
   \<and> channel_configured (default_config\<lparr>bot_channel_id := Some 7\<rparr>)
   \<and> bot_channel_id (default_config\<lparr>bot_channel_id := Some 7\<rparr>)
       = Some (msg_channel_id example_message)
   \<and> list_all catchable (outcomes [failing_handler, ok_handler] example_message (world idle))
   \<and> fst (on_message (default_config\<lparr>bot_channel_id := Some 7\<rparr>) (Some 99)
            [failing_handler, ok_handler] example_message idle) = None
   \<and> invoked (snd (on_message (default_config\<lparr>bot_channel_id := Some 7\<rparr>) (Some 99)
            [failing_handler, ok_handler] example_message idle)) = [0, 1]
   \<and> errlog (snd (on_message (default_config\<lparr>bot_channel_id := Some 7\<rparr>) (Some 99)
            [failing_handler, ok_handler] example_message idle))
       = [''Error in message handler: boom'']"
  using dispatch_invokes_all [of example_message "Some 99"
      "default_config\<lparr>bot_channel_id := Some 7\<rparr>" "[failing_handler, ok_handler]" idle]
  by (simp add: example_message_def default_config_def failing_handler_def ok_handler_def
      idle_def upt_rec channel_configured_def)

text \<open>
  C3 as stated fails twice. A message written by the bot itself (author 42, bot user 42)
  reaches no handler although one is registered. And a handler that raises \<open>SystemExit\<close>
  is not caught: the fault reaches the caller and the handler after it is never called.
\<close>

theorem dispatch_counterexample:
  "on_message default_config (Some 42) [ok_handler] example_message idle = (None, idle)
   \<and> invoked idle = []
   \<and> on_message default_config (Some 99) [exit_handler, ok_handler] example_message idle
       = (Some ''SystemExit'', idle\<lparr>invoked := [0]\<rparr>)"
  by (simp add: on_message_def example_message_def default_config_def channel_configured_def
      exit_handler_def ok_handler_def idle_def)

text \<open>
  C10. A message written by the bot itself, and, when a channel id is configured, a
  message on another channel, reaches no handler: \<open>on_message\<close> returns with the state
  as it was, so nothing is added to \<open>invoked\<close>.
\<close>

theorem filtered_message_reaches_no_handler:
  assumes "Some (author_id m) = bot_user
           \<or> (channel_configured cfg \<and> bot_channel_id cfg \<noteq> Some (msg_channel_id m))"
  shows "on_message cfg bot_user message_handlers m st = (None, st)"
  using assms by (auto simp: on_message_def)

theorem filtered_message_reaches_no_handler_witness:
  "(Some (author_id example_message) = Some 99
     \<or> (channel_configured (default_config\<lparr>bot_channel_id := Some 8\<rparr>)
        \<and> bot_channel_id (default_config\<lparr>bot_channel_id := Some 8\<rparr>)
            \<noteq> Some (msg_channel_id example_message)))
   \<and> on_message (default_config\<lparr>bot_channel_id := Some 8\<rparr>) (Some 99)
        [failing_handler, ok_handler] example_message idle = (None, idle)"
  using filtered_message_reaches_no_handler [of example_message "Some 99"
      "default_config\<lparr>bot_channel_id := Some 8\<rparr>" "[failing_handler, ok_handler]" idle]
  by (simp add: example_message_def default_config_def channel_configured_def)

section \<open>Reloading the scripts\<close>

lemma load_loop_map_of:
  "map_of (load_loop es c)
     = map_of c ++ map_of (rev (map (\<lambda>e. (entry_name e, entry_path e)) (filter executable es)))"
proof (induction es arbitrary: c)
  case Nil
  then show ?case by simp
next
  case (Cons e es)
  show ?case
  proof (cases "executable e")
    case True
    have "map_of (load_loop (e # es) c)
        = (map_of c)(entry_name e \<mapsto> entry_path e)
            ++ map_of (rev (map (\<lambda>e. (entry_name e, entry_path e)) (filter executable es)))"
      using True by (simp only: load_loop.simps if_True Cons.IH AList.update_conv')
    also have "\<dots> = map_of c ++ ([entry_name e \<mapsto> entry_path e]
            ++ map_of (rev (map (\<lambda>e. (entry_name e, entry_path e)) (filter executable es))))"
      by (simp add: map_add_assoc [symmetric] map_add_upd)
    finally show ?thesis using True by simp
  next
    case False
    then show ?thesis by (simp add: Cons.IH)
  qed
qed

lemma load_scripts_keeps_names:
  "fst ` set (script_cache st) \<subseteq> fst ` set (script_cache (load_scripts st))"
proof -
  have "dom (map_of (script_cache st)) \<subseteq> dom (map_of (script_cache (load_scripts st)))"
    by (simp add: load_scripts_def load_loop_map_of split: option.splits)
  then show ?thesis by (simp add: dom_map_of_conv_image_fst)
qed

text \<open>
  C4, as the code has it. \<open>_load_scripts\<close> updates the cache in place. When the directory
  exists, every regular file in it with an execute bit gets the entry name to path (the
  last one wins for a name listed twice) and every other entry of the cache stays, also
  one whose file is gone; the directory is left as it is. When the directory does not
  exist, it is created, empty, and the cache is unchanged. Nothing else of the service
  changes.
\<close>

theorem load_scripts_merges:
  "(case script_dir st of
      None \<Rightarrow>
        script_cache (load_scripts st) = script_cache st
        \<and> script_dir (load_scripts st) = Some []
    | Some es \<Rightarrow>
        map_of (script_cache (load_scripts st))
          = map_of (script_cache st)
              ++ map_of (rev (map (\<lambda>e. (entry_name e, entry_path e)) (filter executable es)))
        \<and> script_dir (load_scripts st) = Some es)
   \<and> children (load_scripts st) = children st
   \<and> outbox (load_scripts st) = outbox st
   \<and> running (load_scripts st) = running st"
  by (simp add: load_scripts_def load_loop_map_of split: option.splits)

text \<open>
  C4 as stated fails: the cache holds \<open>old\<close>, the directory holds only \<open>new\<close>, and after
  the reload \<open>old\<close> is still in the cache.
\<close>

theorem reload_keeps_stale_entry:
  "script_cache (load_scripts stale_service)
     = [(''old'', ''scripts/old''), (''new'', ''scripts/new'')]
   \<and> script_dir stale_service
     = Some [\<lparr> entry_name = ''new'', entry_path = ''scripts/new'', is_file = True, st_mode = 493 \<rparr>]
   \<and> map_of (script_cache (load_scripts stale_service)) ''old'' = Some ''scripts/old''"
  by (simp add: load_scripts_def stale_service_def executable_def)

section \<open>The allow-list\<close>

text \<open>
  C5. With a non-empty allow-list, a command that is not in it is rejected with the
  not-allowed text, whatever else it names: the check comes first, no child is launched
  and the state is unchanged.
\<close>

theorem allow_list_rejects:
  assumes "allowed_commands cfg \<noteq> []" and "command \<notin> set (allowed_commands cfg)"
  shows "execute_command cfg h command args m st
           = (''Command '' @ squote @ command @ squote @ '' not allowed'', st)"
  using assms by (simp add: execute_command_def)

theorem allow_list_rejects_witness:
  "allowed_commands (default_config\<lparr>allowed_commands := [''help'']\<rparr>) \<noteq> []
   \<and> ''greet'' \<notin> set (allowed_commands (default_config\<lparr>allowed_commands := [''help'']\<rparr>))
   \<and> map_of (script_cache greet_service) ''greet'' = Some ''scripts/greet''
   \<and> execute_command (default_config\<lparr>allowed_commands := [''help'']\<rparr>) example_host ''greet''
        [''world''] example_message greet_service
      = (''Command '' @ squote @ ''greet'' @ squote @ '' not allowed'', greet_service)"
  using allow_list_rejects [of "default_config\<lparr>allowed_commands := [''help'']\<rparr>" "''greet''"
      example_host "[''world'']" example_message greet_service]
  by (simp add: default_config_def greet_service_def)

section \<open>The command prefix\<close>

text \<open>
  C6. The claim: a prefix of any length is stripped exactly. \<open>_handle_service_message\<close>
  tests \<open>startswith(prefix)\<close> and then drops one character (\<open>content[1:]\<close>): with the
  prefix \<open>!!\<close> the message \<open>!!greet world\<close> gives the command \<open>!greet\<close>, and the loaded
  script \<open>greet\<close> is not run; the reply is the unknown-command text.
\<close>

theorem prefix_strip_one_char:
  "parse_service_message (default_config\<lparr>prefix := ''!!''\<rparr>)
     (example_message\<lparr>content := ''!!greet world''\<rparr>) = Some (''!greet'', [''world''])
   \<and> handle_service_message (default_config\<lparr>prefix := ''!!''\<rparr>) example_host
       (example_message\<lparr>content := ''!!greet world''\<rparr>) greet_service
     = greet_service\<lparr>outbox := [''Unknown command: !greet. Use '' @ squote @ ''help'' @ squote
                                    @ '' for available commands.'']\<rparr>"
proof -
  have p: "parse_service_message (default_config\<lparr>prefix := ''!!''\<rparr>)
     (example_message\<lparr>content := ''!!greet world''\<rparr>) = Some (''!greet'', [''world''])"
    by (simp add: parse_service_message_def default_config_def example_message_def
        strip_def lstrip_def rstrip_def isspace_def startswith_def split_def)
  have e: "execute_command (default_config\<lparr>prefix := ''!!''\<rparr>) example_host ''!greet''
      [''world''] (example_message\<lparr>content := ''!!greet world''\<rparr>) greet_service
    = (''Unknown command: !greet. Use '' @ squote @ ''help'' @ squote
         @ '' for available commands.'', greet_service)"
    by (simp add: execute_command_def default_config_def greet_service_def system_commands_def)
  show ?thesis
    by (simp add: p handle_service_message_def e) (simp add: greet_service_def)
qed

section \<open>Frames\<close>

lemma from_bytes_to_bytes4:
  assumes "n < 2 ^ 32"
  shows "\<exists>bs. to_bytes4 n = Some bs \<and> length bs = 4 \<and> from_bytes bs = n"
proof -
  have b: "unat (of_nat k :: byte) = k mod 256" for k
    by (simp add: unat_of_nat)
  define q1 where "q1 = n div 256"
  define q2 where "q2 = q1 div 256"
  define q3 where "q3 = q2 div 256"
  have d2: "n div 65536 = q2"
    unfolding q2_def q1_def by (simp add: div_mult2_eq [symmetric])
  have d3: "n div 16777216 = q3"
    unfolding q3_def q2_def q1_def by (simp add: div_mult2_eq [symmetric])
  have "q3 < 256"
    using assms unfolding d3 [symmetric] by simp
  then have m3: "q3 mod 256 = q3" by simp
  have e2: "q3 * 256 + q2 mod 256 = q2" unfolding q3_def by simp
  have e1: "q2 * 256 + q1 mod 256 = q1" unfolding q2_def by simp
  have e0: "q1 * 256 + n mod 256 = n" unfolding q1_def by simp
  have "from_bytes [of_nat (n div 2 ^ 24), of_nat (n div 2 ^ 16), of_nat (n div 2 ^ 8), of_nat n]
      = ((q3 mod 256 * 256 + q2 mod 256) * 256 + q1 mod 256) * 256 + n mod 256"
    by (simp add: from_bytes_def b d2 d3 q1_def [symmetric])
  also have "\<dots> = n" by (simp only: m3 e2 e1 e0)
  finally show ?thesis using assms by (simp add: to_bytes4_def)
qed

lemma frame_defined: "length data < 2 ^ 32 \<Longrightarrow> \<exists>out. frame data = Some out"
  by (simp add: frame_def to_bytes4_def)

lemma frame_split:
  assumes "frame data = Some out"
  shows "length (take 4 out) = 4 \<and> from_bytes (take 4 out) = length data \<and> drop 4 out = data"
proof -
  from assms have lt: "length data < 2 ^ 32"
    by (simp add: frame_def to_bytes4_def split: if_splits option.splits)
  from from_bytes_to_bytes4 [OF lt] obtain bs where
    bs: "to_bytes4 (length data) = Some bs" "length bs = 4" "from_bytes bs = length data"
    by blast
  with assms have "out = bs @ data" by (simp add: frame_def)
  with bs show ?thesis by simp
qed

lemma prune_idem: "prune (prune r) = prune r"
  by (simp add: prune_def)

lemma prune_Cons: "prune (piece # pieces) = (if piece = [] then prune pieces else piece # prune pieces)"
  by (simp add: prune_def)

lemma length_concat_prune: "length (concat (prune r)) = length (concat r)"
  by (induction r) (simp_all add: prune_def)

lemma read_length: "length (fst (read n r)) \<le> length (concat r)"
proof (cases "prune r")
  case Nil
  then show ?thesis by (simp add: read_def)
next
  case (Cons piece pieces)
  have "length (take n piece) \<le> length (concat (piece # pieces))" by simp
  with Cons length_concat_prune [of r] show ?thesis by (simp add: read_def)
qed

lemma read_first:
  "piece \<noteq> [] \<Longrightarrow> read n (piece # pieces) = (take n piece, prune (drop n piece # pieces))"
  by (simp add: read_def prune_Cons prune_idem)

lemma read_0: "read 0 (prune r) = ([], prune r)"
proof (cases "prune r")
  case Nil
  then show ?thesis by (simp add: read_def prune_idem) (simp add: prune_def)
next
  case (Cons piece pieces)
  have "prune (piece # pieces) = piece # pieces"
    using prune_idem [of r] by (simp only: Cons)
  with Cons show ?thesis by (simp add: read_def prune_idem)
qed

lemma read_prefix: "read (length xs) (prune ((xs @ ys) # pieces)) = (xs, prune (ys # pieces))"
proof (cases "xs @ ys = []")
  case True
  then show ?thesis using read_0 [of pieces] by (simp add: prune_Cons)
next
  case False
  then have "prune ((xs @ ys) # pieces) = (xs @ ys) # prune pieces"
    by (simp add: prune_Cons)
  with False show ?thesis
    by (simp add: read_first) (simp add: prune_def)
qed

text \<open>
  The server reads back a whole frame that is available in one piece: the payload it
  decodes is the payload that was framed, and what follows the frame is left for the
  next pass.
\<close>

lemma client_step_reads_frame:
  assumes "frame data = Some out"
  shows "client_step lib b ((out @ rest) # pieces)
     = (case utf8_decode data of
          None \<Rightarrow> Fault ''UnicodeDecodeError''
        | Some message \<Rightarrow>
            (let (response, sent) = process_socket_message lib b message in
             case utf8_encode (dumps lib response) of
               None \<Rightarrow> Fault ''UnicodeEncodeError''
             | Some response_data \<Rightarrow>
                 (case frame response_data of
                    None \<Rightarrow> Fault ''OverflowError''
                  | Some out' \<Rightarrow> Reply out' sent (prune (rest # pieces)))))"
proof -
  from frame_split [OF assms] have
    l: "length (take 4 out) = 4" and f: "from_bytes (take 4 out) = length data"
    and d: "drop 4 out = data" by simp_all
  from l have l4: "4 \<le> length out" by simp
  then have ne: "out @ rest \<noteq> []" by auto
  from l4 d have r1: "read 4 ((out @ rest) # pieces)
      = (take 4 out, prune ((data @ rest) # pieces))"
    by (simp add: read_first [OF ne])
  from l have ne4: "take 4 out \<noteq> []" by auto
  show ?thesis
    unfolding client_step_def r1 Let_def prod.case f read_prefix using ne4
    by (simp split: option.splits prod.splits)
qed

text \<open>
  The server on a stream that ends inside the payload, whose first piece holds the
  length prefix: no frame, the loop is left.
\<close>

lemma client_step_truncated_payload:
  assumes "frame data = Some out" and "concat (piece # pieces) = take n out"
      and "4 \<le> length piece" and "n < length out"
  shows "client_step lib b (piece # pieces) = Break"
proof -
  from frame_split [OF assms(1)] have
    l: "length (take 4 out) = 4" and f: "from_bytes (take 4 out) = length data"
    and d: "drop 4 out = data" by simp_all
  from l d have lo: "length out = 4 + length data"
    by (metis append_take_drop_id length_append)
  have "take 4 piece = take 4 (concat (piece # pieces))" using assms(3) by simp
  also have "\<dots> = take 4 (take n out)" by (simp only: assms(2))
  also have "\<dots> = take 4 out"
  proof -
    have "length piece \<le> length (take n out)"
      by (metis assms(2) concat.simps(2) le_add1 length_append)
    with assms(3) have "4 \<le> n" by simp
    then show ?thesis by (simp add: min_def)
  qed
  finally have t: "take 4 piece = take 4 out" .
  from assms(3) have ne: "piece \<noteq> []" by auto
  have r1: "read 4 (piece # pieces) = (take 4 out, prune (drop 4 piece # pieces))"
    by (simp add: read_first [OF ne] t)
  have "length (concat (prune (drop 4 piece # pieces))) = length (concat (piece # pieces)) - 4"
    using assms(3) by (simp add: length_concat_prune)
  also have "\<dots> < length data"
  proof -
    have "length (concat (piece # pieces)) = n"
      using assms(4) by (simp only: assms(2)) simp
    with assms(3,4) lo show ?thesis by simp
  qed
  finally have short: "length (concat (prune (drop 4 piece # pieces))) < length data" .
  have "length (fst (read (length data) (prune (drop 4 piece # pieces)))) < length data"
    using read_length [of "length data" "prune (drop 4 piece # pieces)"] short by simp
  moreover from l have "take 4 out \<noteq> []" by auto
  ultimately show ?thesis
    unfolding client_step_def r1 Let_def prod.case f
    by (auto split: prod.splits)
qed

text \<open>The client reads back a whole reply frame that is available in one piece.\<close>

lemma send_socket_message_reads_frame:
  assumes "frame data = Some out"
      and "utf8_encode message = Some message_data" and "frame message_data = Some request"
  shows "send_socket_message (Some ((out @ rest) # pieces)) message
     = (request, utf8_decode data)"
proof -
  from frame_split [OF assms(1)] have
    l: "length (take 4 out) = 4" and f: "from_bytes (take 4 out) = length data"
    and d: "drop 4 out = data" by simp_all
  from l have l4: "4 \<le> length out" by simp
  then have ne: "out @ rest \<noteq> []" by auto
  from l4 d have r1: "read 4 ((out @ rest) # pieces)
      = (take 4 out, prune ((data @ rest) # pieces))"
    by (simp add: read_first [OF ne])
  from l have ne4: "take 4 out \<noteq> []" by auto
  show ?thesis
    unfolding send_socket_message_def option.case assms(2) assms(3) r1 Let_def prod.case f
      read_prefix
    using ne4 by (simp split: option.splits)
qed

text \<open>
  Both readers take what \<open>read\<close> returns for the whole of what they asked for. The frame
  of the payload \<open>hi\<close>, arriving in two pieces, gives the server a short read: it leaves
  the loop without a reply. And a stream that ends after three bytes of a length prefix
  is read as the length 0, and the empty payload is processed.
\<close>

lemma split_frame_is_dropped:
  "frame [104, 105] = Some [0, 0, 0, 2, 104, 105]
   \<and> client_step lib b [[0, 0, 0, 2, 104], [105]] = Break"
  by (simp add: frame_def to_bytes4_def client_step_def read_def prune_def from_bytes_def)

lemma short_prefix_is_read: "client_step lib b [[0, 0, 0]] \<noteq> Break"
  by (simp add: client_step_def read_def prune_def from_bytes_def Let_def
      split: option.splits prod.splits)

text \<open>
  C7. The claim: a frame that is written is read back as it was, and a stream that ends
  before the declared payload is complete gives no frame. On a frame that is available
  in one piece both readers return the payload that was framed
  (\<open>client_step_reads_frame\<close>, \<open>send_socket_message_reads_frame\<close>), and the server gives
  no frame for a stream that ends inside the payload (\<open>client_step_truncated_payload\<close>).
  The client's reader in \<open>send_socket_message\<close> does not compare the number of bytes
  read with the declared length: a reply that declares 5 bytes and ends after \<open>he\<close> is
  returned as the response \<open>he\<close>.
\<close>

theorem client_accepts_truncated_reply:
  "snd (send_socket_message (Some [[0, 0, 0, 5, 104, 101]]) (lit ''status'')) = Some (lit ''he'')"
  by (simp add: send_socket_message_def lit_def frame_def to_bytes4_def from_bytes_def cont_def
      read_def prune_def Let_def)

section \<open>The environment of the children\<close>

lemma execute_script_children:
  "\<exists>p. children (snd (execute_script cfg h script_name script_path args m st))
     = (if isl (spawn h (script_launch cfg h script_path args m)) then children st
        else children st @ [(script_launch cfg h script_path args m, p)])"
proof (cases "spawn h (script_launch cfg h script_path args m)")
  case (Inl e)
  then show ?thesis by (simp add: execute_script_def)
next
  case (Inr behaviour)
  then show ?thesis
    by (cases behaviour) (simp_all add: execute_script_def Let_def)
qed

lemma execute_system_command_children:
  "\<exists>p. children (snd (execute_system_command cfg h command args st))
     = (if isl (spawn h (system_launch command args)) then children st
        else children st @ [(system_launch command args, p)])"
proof (cases "spawn h (system_launch command args)")
  case (Inl e)
  then show ?thesis by (simp add: execute_system_command_def)
next
  case (Inr behaviour)
  then show ?thesis
    by (cases behaviour) (simp_all add: execute_system_command_def Let_def)
qed

lemma script_launch_env:
  "map_of (effective_env h (script_launch cfg h script_path args m))
     = (map_of (environ h))
         (''DISCORD_MESSAGE_ID'' \<mapsto> str_int (msg_id m),
          ''DISCORD_AUTHOR'' \<mapsto> author_str m,
          ''DISCORD_CHANNEL_ID'' \<mapsto> str_int (msg_channel_id m),
          ''DISCORD_GUILD_ID'' \<mapsto> (case guild_id m of None \<Rightarrow> [] | Some g \<Rightarrow> str_int g),
          ''DISCORD_MESSAGE_CONTENT'' \<mapsto> content m,
          ''DISCORD_ARGS'' \<mapsto> join '' '' args)"
  by (simp only: effective_env_def script_launch_def script_env_def launch.simps option.simps
      AList.update_conv')

text \<open>
  C8, as the code has it. \<open>_execute_command\<close> launches a child exactly when the command
  passes the allow-list, names a loaded script or a system command, and
  \<open>create_subprocess_exec\<close> does not raise; it then launches one child, \<open>l\<close>, after the
  children it launched before, and otherwise none. The child gets the arguments of the
  command. For a script it runs the script's path in the configured working directory,
  and its environment is \<open>os.environ\<close> with \<open>DISCORD_MESSAGE_ID\<close>, \<open>DISCORD_AUTHOR\<close>,
  \<open>DISCORD_CHANNEL_ID\<close>, \<open>DISCORD_GUILD_ID\<close> (empty without a guild),
  \<open>DISCORD_MESSAGE_CONTENT\<close> and \<open>DISCORD_ARGS\<close> (the arguments joined by one space) set.
  For a system command it runs the command with the environment of the bot's process,
  unchanged.
\<close>

theorem child_environment:
  "let l = (case map_of (script_cache st) command of
              Some script_path \<Rightarrow> script_launch cfg h script_path args m
            | None \<Rightarrow> system_launch command args);
       launched =
         ((allowed_commands cfg = [] \<or> command \<in> set (allowed_commands cfg))
          \<and> (command \<in> set system_commands \<or> map_of (script_cache st) command \<noteq> None)
          \<and> \<not> isl (spawn h l))
   in (\<exists>p. children (snd (execute_command cfg h command args m st))
            = (if launched then children st @ [(l, p)] else children st))
      \<and> argv l = args
      \<and> (case map_of (script_cache st) command of
           Some script_path \<Rightarrow>
             program l = script_path
             \<and> effective_cwd h l = working_directory cfg
             \<and> map_of (effective_env h l)
                 = (map_of (environ h))
                     (''DISCORD_MESSAGE_ID'' \<mapsto> str_int (msg_id m),
                      ''DISCORD_AUTHOR'' \<mapsto> author_str m,
                      ''DISCORD_CHANNEL_ID'' \<mapsto> str_int (msg_channel_id m),
                      ''DISCORD_GUILD_ID'' \<mapsto> (case guild_id m of None \<Rightarrow> [] | Some g \<Rightarrow> str_int g),
                      ''DISCORD_MESSAGE_CONTENT'' \<mapsto> content m,
                      ''DISCORD_ARGS'' \<mapsto> join '' '' args)
         | None \<Rightarrow>
             program l = command
             \<and> effective_env h l = environ h)"
proof (cases "map_of (script_cache st) command")
  case None
  have props: "argv (system_launch command args) = args
      \<and> program (system_launch command args) = command
      \<and> effective_env h (system_launch command args) = environ h"
    by (simp add: system_launch_def effective_env_def)
  have "\<exists>p. children (snd (execute_command cfg h command args m st))
      = (if (allowed_commands cfg = [] \<or> command \<in> set (allowed_commands cfg))
            \<and> command \<in> set system_commands
            \<and> \<not> isl (spawn h (system_launch command args))
         then children st @ [(system_launch command args, p)] else children st)"
  proof (cases "allowed_commands cfg \<noteq> [] \<and> command \<notin> set (allowed_commands cfg)")
    case True
    then show ?thesis by (auto simp: execute_command_def)
  next
    case allowed: False
    show ?thesis
    proof (cases "command \<in> set system_commands")
      case True
      with allowed None execute_system_command_children [of cfg h command args st]
      show ?thesis by (auto simp: execute_command_def)
    next
      case False
      with allowed None show ?thesis
        by (auto simp: execute_command_def load_scripts_def split: option.splits)
    qed
  qed
  with None props show ?thesis by (simp add: Let_def)
next
  case (Some script_path)
  have props: "argv (script_launch cfg h script_path args m) = args
      \<and> program (script_launch cfg h script_path args m) = script_path
      \<and> effective_cwd h (script_launch cfg h script_path args m) = working_directory cfg"
    by (simp add: script_launch_def effective_cwd_def)
  have "\<exists>p. children (snd (execute_command cfg h command args m st))
      = (if (allowed_commands cfg = [] \<or> command \<in> set (allowed_commands cfg))
            \<and> \<not> isl (spawn h (script_launch cfg h script_path args m))
         then children st @ [(script_launch cfg h script_path args m, p)] else children st)"
  proof (cases "allowed_commands cfg \<noteq> [] \<and> command \<notin> set (allowed_commands cfg)")
    case True
    then show ?thesis by (auto simp: execute_command_def)
  next
    case False
    with Some execute_script_children [of cfg h command script_path args m st]
    show ?thesis by (auto simp: execute_command_def)
  qed
  with Some props show ?thesis by (simp add: Let_def script_launch_env)
qed

theorem child_environment_witness:
  "children (snd (execute_command example_config example_host ''greet'' [''world'']
      example_message greet_service))
     = [(script_launch example_config example_host ''scripts/greet'' [''world''] example_message,
         Exited 0)]
   \<and> argv (script_launch example_config example_host ''scripts/greet'' [''world''] example_message)
       = [''world'']
   \<and> program (script_launch example_config example_host ''scripts/greet'' [''world''] example_message)
       = ''scripts/greet''
   \<and> effective_cwd example_host
        (script_launch example_config example_host ''scripts/greet'' [''world''] example_message)
       = ''/srv/bot''
   \<and> map_of (effective_env example_host
        (script_launch example_config example_host ''scripts/greet'' [''world''] example_message))
        ''DISCORD_ARGS'' = Some ''world''
   \<and> map_of (effective_env example_host
        (script_launch example_config example_host ''scripts/greet'' [''world''] example_message))
        ''PATH'' = Some ''/usr/bin''"
  using child_environment [where st = greet_service and command = "''greet''"
      and cfg = example_config and h = example_host and args = "[''world'']"
      and m = example_message]
  by (simp add: execute_command_def execute_script_def greet_service_def example_config_def
      default_config_def example_host_def Let_def script_launch_def script_env_def
      effective_cwd_def effective_env_def)

text \<open>
  C8 as stated fails. The child of the system command \<open>ls\<close> has neither
  \<open>DISCORD_MESSAGE_ID\<close> nor \<open>DISCORD_ARGS\<close> nor \<open>MESSAGE_ID\<close> nor \<open>ARGS\<close> in its
  environment. And the child of the script \<open>greet\<close> has the message id under
  \<open>DISCORD_MESSAGE_ID\<close>; it has no variable \<open>MESSAGE_ID\<close>.
\<close>

theorem system_command_environment_counterexample:
  "children (snd (execute_command example_config example_host ''ls'' [] example_message
      empty_service)) = [(system_launch ''ls'' [], Exited 0)]
   \<and> map_of (effective_env example_host (system_launch ''ls'' [])) ''DISCORD_MESSAGE_ID'' = None
   \<and> map_of (effective_env example_host (system_launch ''ls'' [])) ''DISCORD_ARGS'' = None
   \<and> map_of (effective_env example_host (system_launch ''ls'' [])) ''MESSAGE_ID'' = None
   \<and> map_of (effective_env example_host (system_launch ''ls'' [])) ''ARGS'' = None
   \<and> children (snd (execute_command example_config example_host ''greet'' [''world'']
        example_message greet_service))
       = [(script_launch example_config example_host ''scripts/greet'' [''world'']
             example_message, Exited 0)]
   \<and> map_of (effective_env example_host
        (script_launch example_config example_host ''scripts/greet'' [''world''] example_message))
        ''MESSAGE_ID'' = None
   \<and> map_of (effective_env example_host
        (script_launch example_config example_host ''scripts/greet'' [''world''] example_message))
        ''DISCORD_MESSAGE_ID'' = Some ''1001''"
proof -
  have ls: "children (snd (execute_command example_config example_host ''ls'' [] example_message
      empty_service)) = [(system_launch ''ls'' [], Exited 0)]"
    by (simp add: execute_command_def execute_system_command_def system_commands_def
        example_config_def default_config_def example_host_def empty_service_def Let_def)
  have greet: "children (snd (execute_command example_config example_host ''greet'' [''world'']
        example_message greet_service))
       = [(script_launch example_config example_host ''scripts/greet'' [''world'']
             example_message, Exited 0)]"
    by (simp add: execute_command_def execute_script_def greet_service_def example_config_def
        default_config_def example_host_def Let_def)
  have id: "str_int (msg_id example_message) = ''1001''"
    by (simp add: example_message_def str_int_def str_nat.simps digit_char_def)
  show ?thesis
    by (simp add: ls greet script_launch_env id)
      (simp add: effective_env_def system_launch_def example_host_def)
qed

section \<open>Errors on the socket\<close>

lemma invalid_json_reply:
  "loads lib message = JSONDecodeError \<Longrightarrow>
   process_socket_message lib b message = (error_reply (lit ''Invalid JSON message''), [])"
  by (simp add: process_socket_message_def)

lemma unknown_command_reply:
  assumes "loads lib message = Loaded (JObj [(lit ''command'', JStr (lit ''frobnicate''))])"
  shows "process_socket_message lib b message
     = (JObj [(lit ''error'', JStr (lit ''Unknown command: frobnicate''))], [])"
  using assms by (simp add: process_socket_message_def get_def py_str_def error_reply_def lit_def)

text \<open>
  C9. The claim: a frame whose payload is not valid JSON is answered with an error frame
  and the connection stays open. For text that \<open>json.loads\<close> rejects and for an unknown
  command \<open>_process_socket_message\<close> returns the error reply (\<open>invalid_json_reply\<close>,
  \<open>unknown_command_reply\<close>). But the payload is decoded as UTF-8 before that, outside
  the \<open>try\<close> of \<open>_process_socket_message\<close>: for the one-byte payload \<open>0xFF\<close> the
  \<open>UnicodeDecodeError\<close> ends the loop of \<open>_handle_client\<close>, nothing is written and the
  connection is closed.
\<close>

theorem invalid_utf8_closes_connection:
  "handle_client lib b True [[0, 0, 0, 1, 255]]
     = \<lparr> written = [], chat_sends = [], fault = Some ''UnicodeDecodeError'' \<rparr>"
  by (simp add: handle_client.simps client_step_def read_def prune_def from_bytes_def)

end
